theory Spec2Isabelle
  imports Complex_Main
begin

section \<open>Zenith Point: the progression engine of \<open>src/game.js\<close>\<close>

text \<open>
  \<open>src/game.js\<close> holds two variants of the class \<open>GameEngine\<close>: the first (lines 11-221,
  suffix \<open>_v1\<close> below) tracks progress as the ratio of flux to the target, the second
  (lines 483-760, suffix \<open>_v2\<close>) as a remaining distance. Both are embedded, function by
  function, under the names of the source.

  Numbers. A JavaScript number is an IEEE double; the embedding reads every numeric
  field that holds a quantity (flux, coherence, costs, rates, distances) as a \<open>real\<close>
  and every decimal literal as the rational it denotes, so rounding, overflow to
  \<open>Infinity\<close> and \<open>NaN\<close> are outside the model. \<open>Math.pow(10, y)\<close> is \<open>10 powr y\<close>.
  An upgrade's \<open>count\<close> starts at 0 and changes only by \<open>u.count++\<close> and \<open>u.count = 0\<close>
  (and by \<open>loadGame\<close>, whose snapshot type carries naturals), so it is a \<open>nat\<close> and
  \<open>x ** count\<close>, \<open>Math.pow(x, count)\<close> are the power \<open>x ^ count\<close>. \<open>Date.now()\<close> yields
  whole milliseconds, an \<open>int\<close>.

  Effects. The methods mutate \<open>this\<close>; the embedding passes the engine as a record and
  returns the updated record. Writes to the DOM (\<open>updateUI\<close>, \<open>renderUpgrades\<close>,
  \<open>notify\<close>, \<open>log\<close>), the starfield and the audio layer never flow back into the
  engine's fields and are left out; the one value of \<open>updateUI\<close> the claims speak of,
  the clamped progress, is embedded as a function of the engine. A thrown
  \<open>TypeError\<close> is the left injection of a sum.
\<close>

subsection \<open>Upgrades\<close>

text \<open>
  One element of \<open>this.upgrades\<close>. The fields \<open>id\<close>, \<open>name\<close>, \<open>desc\<close>, \<open>power\<close> and \<open>type\<close>
  carry the suffix \<open>_u\<close>, their plain names being taken in HOL. \<open>type_u\<close> is \<open>None\<close> where
  the object literal has no \<open>type\<close> property.
\<close>

record upgrade =
  id_u :: string
  name_u :: string
  desc_u :: string
  baseCost :: real
  costMult :: real
  count :: nat
  power_u :: real
  type_u :: "string option"

datatype error = TypeError

text \<open>\<open>getCost(u)\<close>, lines 105-107 and 600-602: the same function in both variants.\<close>

definition getCost :: "upgrade \<Rightarrow> real" where
  "getCost u = baseCost u * (costMult u ^ count u)"

text \<open>The array literals of the two constructors, lines 18-23 and 493-498.\<close>

definition upgrades_v1 :: "upgrade list" where
  "upgrades_v1 =
    [\<lparr>id_u = ''u1'', name_u = ''Flux Inductor'', desc_u = ''Increases base Flux rate by 0.5'',
       baseCost = 10, costMult = 1.15, count = 0, power_u = 0.5, type_u = None\<rparr>,
     \<lparr>id_u = ''u2'', name_u = ''Resonance Chamber'', desc_u = ''Increases base Flux rate by 5.0'',
       baseCost = 100, costMult = 1.2, count = 0, power_u = 5.0, type_u = None\<rparr>,
     \<lparr>id_u = ''u3'', name_u = ''Dimensional Splitter'', desc_u = ''Increases base Flux rate by 50.0'',
       baseCost = 1000, costMult = 1.25, count = 0, power_u = 50.0, type_u = None\<rparr>,
     \<lparr>id_u = ''u4'', name_u = ''Quantum Stabilizer'', desc_u = ''Multiplies total rate by 2x'',
       baseCost = 10000, costMult = 1.5, count = 0, power_u = 2.0, type_u = Some ''mult''\<rparr>]"

definition upgrades_v2 :: "upgrade list" where
  "upgrades_v2 =
    [\<lparr>id_u = ''u1'', name_u = ''Resonance Core'', desc_u = ''Increases base Flux generation'',
       baseCost = 15, costMult = 1.15, count = 0, power_u = 1.0, type_u = None\<rparr>,
     \<lparr>id_u = ''u2'', name_u = ''Solenoid Arrays'', desc_u = ''Enhances Flux collection efficiency'',
       baseCost = 150, costMult = 1.2, count = 0, power_u = 10.0, type_u = None\<rparr>,
     \<lparr>id_u = ''u3'', name_u = ''Dimensional Splice'', desc_u = ''Increases throughput by 4.0x per unit'',
       baseCost = 2000, costMult = 1.6, count = 0, power_u = 4.0, type_u = Some ''mult''\<rparr>,
     \<lparr>id_u = ''u4'', name_u = ''Inertial Bypass'', desc_u = ''Reduces relativistic drag (Overall 2.5x)'',
       baseCost = 50000, costMult = 2.2, count = 0, power_u = 2.5, type_u = Some ''mult''\<rparr>]"

subsection \<open>Helpers for the array of upgrades\<close>

text \<open>
  \<open>this.upgrades.find(u => u.id === id)\<close> is \<open>find\<close> of the list library: the first
  element with that id, \<open>None\<close> for JavaScript's \<open>undefined\<close>. The object it returns is
  the array's own element, so a write to it (\<open>u.count++\<close>, \<open>u.count = su.count\<close>) changes
  the array at that element; \<open>update_found\<close> is that write.
\<close>

definition find_upgrade :: "string \<Rightarrow> upgrade list \<Rightarrow> upgrade option" where
  "find_upgrade i us = find (\<lambda>u. id_u u = i) us"

primrec update_found :: "string \<Rightarrow> (upgrade \<Rightarrow> upgrade) \<Rightarrow> upgrade list \<Rightarrow> upgrade list" where
  "update_found i f [] = []"
| "update_found i f (u # us) = (if id_u u = i then f u # us else u # update_found i f us)"

text \<open>\<open>!u.type\<close>: true for a missing property and for the empty string.\<close>

definition no_type :: "upgrade \<Rightarrow> bool" where
  "no_type u = (case type_u u of None \<Rightarrow> True | Some t \<Rightarrow> t = [])"

subsection \<open>The state shared by both variants\<close>

record core =
  flux :: real
  totalFlux :: real
  coherence :: real
  upgrades :: "upgrade list"
  lastTick :: int

subsection \<open>Variant 1 (lines 11-221)\<close>

text \<open>
  The object \<open>saveGame\<close> serialises and \<open>loadGame\<close> reads back. A property that the stored
  object lacks is \<open>None\<close>; a property that is present has the type \<open>saveGame\<close> writes.
  Stored text that is not JSON, or JSON of another shape, is outside this type.
\<close>

record saved_upgrade =
  su_id :: string
  su_count :: nat

record snapshot =
  s_flux :: "real option"
  s_totalFlux :: "real option"
  s_coherence :: "real option"
  s_rebootCount :: "nat option"
  s_upgrades :: "saved_upgrade list option"

text \<open>
  The engine of variant 1, together with the one item of \<open>localStorage\<close> the class
  touches, \<open>zenith_save\<close> (\<open>None\<close> when \<open>getItem\<close> returns \<open>null\<close>).
\<close>

record engine_v1 = core +
  rebootCount :: nat
  zenith_save :: "snapshot option"

text \<open>The field initialisers of the constructor, lines 13-25; \<open>now\<close> is \<open>Date.now()\<close>.\<close>

definition GameEngine_v1 :: "int \<Rightarrow> snapshot option \<Rightarrow> engine_v1" where
  "GameEngine_v1 now stored =
    \<lparr>flux = 0, totalFlux = 0, coherence = 1, upgrades = upgrades_v1, lastTick = now,
     rebootCount = 0, zenith_save = stored\<rparr>"

text \<open>\<open>addFlux\<close>, lines 56-60.\<close>

definition addFlux_v1 :: "real \<Rightarrow> engine_v1 \<Rightarrow> engine_v1" where
  "addFlux_v1 amount s = s\<lparr>flux := flux s + amount, totalFlux := totalFlux s + amount\<rparr>"

text \<open>The click handler of \<open>collect-btn\<close>, line 48.\<close>

definition collect_v1 :: "engine_v1 \<Rightarrow> engine_v1" where
  "collect_v1 s = addFlux_v1 (1 * coherence s) s"

text \<open>
  \<open>getRate\<close>, lines 62-72. \<open>getRate_each_v1\<close> is the callback of \<open>forEach\<close>, acting on the
  two local variables \<open>(base, mult)\<close>.
\<close>

definition getRate_each_v1 :: "upgrade \<Rightarrow> real \<times> real \<Rightarrow> real \<times> real" where
  "getRate_each_v1 u bm =
    (if no_type u then (fst bm + real (count u) * power_u u, snd bm)
     else if type_u u = Some ''mult'' then (fst bm, snd bm * (power_u u ^ count u))
     else bm)"

definition getRate_v1 :: "engine_v1 \<Rightarrow> real" where
  "getRate_v1 s =
    (let bm = fold getRate_each_v1 (upgrades s) (0, 1)
     in fst bm * snd bm * coherence s)"

text \<open>\<open>getZenithTarget\<close>, lines 74-82, and \<open>getRebootRequirement\<close>, lines 84-86.\<close>

definition getZenithTarget_v1 :: "engine_v1 \<Rightarrow> real" where
  "getZenithTarget_v1 s = 10 powr (15 + (1.2 * (coherence s - 1)))"

definition getRebootRequirement_v1 :: "engine_v1 \<Rightarrow> real" where
  "getRebootRequirement_v1 s = 10 powr (10 + (2.5 * (coherence s - 1)))"

text \<open>
  \<open>buyUpgrade\<close>, lines 109-119. For an id that no upgrade has, \<open>find\<close> returns
  \<open>undefined\<close> and \<open>getCost\<close> throws on reading \<open>u.baseCost\<close>.
\<close>

definition buyUpgrade_v1 :: "string \<Rightarrow> engine_v1 \<Rightarrow> error + engine_v1" where
  "buyUpgrade_v1 i s =
    (case find_upgrade i (upgrades s) of
       None \<Rightarrow> Inl TypeError
     | Some u \<Rightarrow>
         (let cost = getCost u
          in if flux s \<ge> cost
             then Inr (s\<lparr>flux := flux s - cost,
                         upgrades := update_found i (\<lambda>u. u\<lparr>count := count u + 1\<rparr>) (upgrades s)\<rparr>)
             else Inr s))"

text \<open>\<open>executeReboot\<close>, lines 121-132.\<close>

definition executeReboot_v1 :: "engine_v1 \<Rightarrow> engine_v1" where
  "executeReboot_v1 s =
    (let req = getRebootRequirement_v1 s
     in if flux s \<ge> req
        then s\<lparr>coherence := coherence s + 1,
               flux := 0,
               upgrades := map (\<lambda>u. u\<lparr>count := 0\<rparr>) (upgrades s),
               rebootCount := rebootCount s + 1\<rparr>
        else s)"

text \<open>
  The progress that \<open>updateUI\<close> shows, lines 140-145: the local \<open>clampedProgress\<close>.
\<close>

definition clampedProgress_v1 :: "engine_v1 \<Rightarrow> real" where
  "clampedProgress_v1 s =
    (let target = getZenithTarget_v1 s;
         progress = (flux s / target) * 100
     in min progress 99.999999)"

text \<open>
  One run of the interval callback of \<open>startLoop\<close>, lines 186-193, at clock reading
  \<open>now\<close>. \<open>elapsed_v1\<close> is its local \<open>delta\<close>.
\<close>

definition elapsed_v1 :: "int \<Rightarrow> engine_v1 \<Rightarrow> real" where
  "elapsed_v1 now s = real_of_int (now - lastTick s) / 1000"

definition startLoop_tick_v1 :: "int \<Rightarrow> engine_v1 \<Rightarrow> engine_v1" where
  "startLoop_tick_v1 now s =
    (let delta = elapsed_v1 now s;
         s1 = s\<lparr>lastTick := now\<rparr>;
         gain = getRate_v1 s1 * delta
     in addFlux_v1 gain s1)"

text \<open>\<open>saveGame\<close>, lines 196-205. No method of the class calls it.\<close>

definition saveGame_v1 :: "engine_v1 \<Rightarrow> engine_v1" where
  "saveGame_v1 s =
    s\<lparr>zenith_save := Some
       \<lparr>s_flux = Some (flux s),
        s_totalFlux = Some (totalFlux s),
        s_coherence = Some (coherence s),
        s_rebootCount = Some (rebootCount s),
        s_upgrades = Some (map (\<lambda>u. \<lparr>su_id = id_u u, su_count = count u\<rparr>) (upgrades s))\<rparr>\<rparr>"

text \<open>
  \<open>loadGame\<close>, lines 207-220. \<open>v || d\<close> is \<open>d\<close> when the property is missing and also
  when it is the number 0. \<open>data.upgrades.forEach\<close> throws when the property is missing.
  The exception leaves the constructor, so no engine exists afterwards.
\<close>

definition or_default :: "'a::zero option \<Rightarrow> 'a \<Rightarrow> 'a" where
  "or_default v d = (case v of None \<Rightarrow> d | Some x \<Rightarrow> if x = 0 then d else x)"

definition loadGame_each_v1 :: "saved_upgrade \<Rightarrow> upgrade list \<Rightarrow> upgrade list" where
  "loadGame_each_v1 su us =
    (case find_upgrade (su_id su) us of
       None \<Rightarrow> us
     | Some u \<Rightarrow> update_found (su_id su) (\<lambda>u. u\<lparr>count := su_count su\<rparr>) us)"

definition loadGame_v1 :: "engine_v1 \<Rightarrow> error + engine_v1" where
  "loadGame_v1 s =
    (case zenith_save s of
       None \<Rightarrow> Inr s
     | Some data \<Rightarrow>
         (let s1 = s\<lparr>flux := or_default (s_flux data) 0,
                     totalFlux := or_default (s_totalFlux data) 0,
                     coherence := or_default (s_coherence data) 1,
                     rebootCount := or_default (s_rebootCount data) 0\<rparr>
          in case s_upgrades data of
               None \<Rightarrow> Inl TypeError
             | Some sus \<Rightarrow> Inr (s1\<lparr>upgrades := fold loadGame_each_v1 sus (upgrades s1)\<rparr>)))"

subsection \<open>Variant 2 (lines 483-760)\<close>

record engine_v2 = core +
  velocity :: real
  distance :: real
  baseDistance :: real
  reboots :: nat
  epsilon :: real
  initialized :: bool

text \<open>The field initialisers of the constructor, lines 485-505.\<close>

definition GameEngine_v2 :: "int \<Rightarrow> engine_v2" where
  "GameEngine_v2 now =
    \<lparr>flux = 0, totalFlux = 0, coherence = 1, upgrades = upgrades_v2, lastTick = now,
     velocity = 0, distance = 10 ^ 15, baseDistance = 10 ^ 15, reboots = 0,
     epsilon = 1 / 10 ^ 9, initialized = False\<rparr>"

text \<open>\<open>addFlux\<close>, lines 554-557.\<close>

definition addFlux_v2 :: "real \<Rightarrow> engine_v2 \<Rightarrow> engine_v2" where
  "addFlux_v2 amount s = s\<lparr>flux := flux s + amount, totalFlux := totalFlux s + amount\<rparr>"

text \<open>
  The click handler of \<open>collect-btn\<close>, lines 543-548. \<open>Math.pow(c, 1.5)\<close> is \<open>c powr 1.5\<close>
  for \<open>c \<ge> 0\<close>; it is \<open>NaN\<close> for negative \<open>c\<close>, which the model does not represent.
\<close>

definition collect_v2 :: "engine_v2 \<Rightarrow> engine_v2" where
  "collect_v2 s = (let gain = 1 * (coherence s powr 1.5) in addFlux_v2 gain s)"

text \<open>\<open>getRate\<close>, lines 559-567: here every upgrade with a type multiplies.\<close>

definition getRate_each_v2 :: "upgrade \<Rightarrow> real \<times> real \<Rightarrow> real \<times> real" where
  "getRate_each_v2 u bm =
    (if no_type u then (fst bm + real (count u) * power_u u, snd bm)
     else (fst bm, snd bm * (power_u u ^ count u)))"

definition getRate_v2 :: "engine_v2 \<Rightarrow> real" where
  "getRate_v2 s =
    (let bm = fold getRate_each_v2 (upgrades s) (0, 1)
     in fst bm * snd bm * coherence s)"

text \<open>\<open>getZenithTarget\<close>, lines 569-575, and \<open>getRebootRequirement\<close>, lines 577-579.\<close>

definition getZenithTarget_v2 :: "engine_v2 \<Rightarrow> real" where
  "getZenithTarget_v2 s = 10 powr (15 + (1.5 * (coherence s - 1)))"

definition getRebootRequirement_v2 :: "engine_v2 \<Rightarrow> real" where
  "getRebootRequirement_v2 s = 10 powr (10 + (2.8 * (coherence s - 1)))"

text \<open>\<open>buyUpgrade\<close>, lines 604-613.\<close>

definition buyUpgrade_v2 :: "string \<Rightarrow> engine_v2 \<Rightarrow> error + engine_v2" where
  "buyUpgrade_v2 i s =
    (case find_upgrade i (upgrades s) of
       None \<Rightarrow> Inl TypeError
     | Some u \<Rightarrow>
         (let cost = getCost u
          in if flux s \<ge> cost
             then Inr (s\<lparr>flux := flux s - cost,
                         upgrades := update_found i (\<lambda>u. u\<lparr>count := count u + 1\<rparr>) (upgrades s)\<rparr>)
             else Inr s))"

text \<open>
  \<open>executeReboot\<close>, lines 615-632. \<open>getZenithTarget()\<close> on line 624 runs after
  \<open>this.coherence += 1\<close>, so it reads the new coherence.
\<close>

definition executeReboot_v2 :: "engine_v2 \<Rightarrow> engine_v2" where
  "executeReboot_v2 s =
    (let req = getRebootRequirement_v2 s
     in if flux s \<ge> req
        then (let s1 = s\<lparr>coherence := coherence s + 1,
                          reboots := reboots s + 1,
                          flux := 0,
                          upgrades := map (\<lambda>u. u\<lparr>count := 0\<rparr>) (upgrades s)\<rparr>;
                  s2 = s1\<lparr>baseDistance := getZenithTarget_v2 s1\<rparr>
              in s2\<lparr>distance := baseDistance s2\<rparr>)
        else s)"

text \<open>
  One frame of \<open>animate\<close>, lines 634-658, at clock reading \<open>now\<close>; \<open>elapsed_v2\<close> is its
  local \<open>delta\<close>.
\<close>

definition elapsed_v2 :: "int \<Rightarrow> engine_v2 \<Rightarrow> real" where
  "elapsed_v2 now s = real_of_int (now - lastTick s) / 1000"

definition animate_v2 :: "int \<Rightarrow> engine_v2 \<Rightarrow> engine_v2" where
  "animate_v2 now s =
    (let delta = elapsed_v2 now s;
         s1 = s\<lparr>lastTick := now\<rparr>;
         rate = getRate_v2 s1;
         s2 = addFlux_v2 (rate * delta) s1;
         s3 = s2\<lparr>velocity := rate * 10\<rparr>;
         closingSpeed = velocity s3 * epsilon s3;
         s4 = s3\<lparr>distance := distance s3 - closingSpeed * delta\<rparr>
     in if distance s4 < 10 ^ 5 then s4\<lparr>distance := 10 ^ 5\<rparr> else s4)"

text \<open>The progress that \<open>updateUI\<close> shows, lines 679-683: the local \<open>clamped\<close>.\<close>

definition clamped_v2 :: "engine_v2 \<Rightarrow> real" where
  "clamped_v2 s =
    (let target = getZenithTarget_v2 s;
         progress = max 0 ((1 - (distance s / target)) * 100)
     in min progress 99.9999999)"

subsection \<open>Two concrete engines\<close>

text \<open>
  The engines right after construction at clock reading 1000, but owning one \<open>u1\<close>:
  the state a player reaches by collecting flux and buying the first upgrade, with
  the flux spent. They serve as concrete inputs below.
\<close>

definition owning_one_v1 :: engine_v1 where
  "owning_one_v1 =
    (GameEngine_v1 1000 None)\<lparr>upgrades := upgrades_v1[0 := (upgrades_v1 ! 0)\<lparr>count := 1\<rparr>]\<rparr>"

definition owning_one_v2 :: engine_v2 where
  "owning_one_v2 =
    (GameEngine_v2 1000)\<lparr>upgrades := upgrades_v2[0 := (upgrades_v2 ! 0)\<lparr>count := 1\<rparr>]\<rparr>"

text \<open>
  The engines right after construction, holding exactly the flux the first reboot
  requires, \<open>10 ^ 10\<close>, all of it accrued.
\<close>

definition reboot_ready_v1 :: engine_v1 where
  "reboot_ready_v1 = (GameEngine_v1 0 None)\<lparr>flux := 10 ^ 10, totalFlux := 10 ^ 10\<rparr>"

definition reboot_ready_v2 :: engine_v2 where
  "reboot_ready_v2 = (GameEngine_v2 0)\<lparr>flux := 10 ^ 10, totalFlux := 10 ^ 10\<rparr>"

section \<open>Properties\<close>

subsection \<open>Cost curve\<close>

lemma defined_upgrade_curve:
  assumes "u \<in> set upgrades_v1 \<union> set upgrades_v2"
  shows "0 < baseCost u \<and> 1 < costMult u"
  using assms by (auto simp: upgrades_v1_def upgrades_v2_def)

text \<open>
  Claim C6. For every upgrade the two constructors define and every owned count \<open>n\<close>,
  the cost at count \<open>n\<close> is \<open>baseCost * costMult ^ n\<close>, the cost at \<open>n + 1\<close> is the cost at
  \<open>n\<close> times \<open>costMult\<close>, and the cost strictly grows from \<open>n\<close> to \<open>n + 1\<close>, every
  \<open>costMult\<close> of the two tables being above 1 and every \<open>baseCost\<close> positive.
\<close>

theorem getCost_exponential:
  assumes "u \<in> set upgrades_v1 \<union> set upgrades_v2"
  shows "getCost (u\<lparr>count := n\<rparr>) = baseCost u * costMult u ^ n
       \<and> getCost (u\<lparr>count := n + 1\<rparr>) = getCost (u\<lparr>count := n\<rparr>) * costMult u
       \<and> getCost (u\<lparr>count := n\<rparr>) < getCost (u\<lparr>count := n + 1\<rparr>)"
proof -
  from defined_upgrade_curve [OF assms] have b: "0 < baseCost u" and m: "1 < costMult u"
    by simp_all
  have "baseCost u * costMult u ^ n < baseCost u * costMult u ^ Suc n"
    using b m by simp
  then show ?thesis
    by (simp add: getCost_def)
qed

theorem getCost_exponential_witness:
  "upgrades_v1 ! 0 \<in> set upgrades_v1 \<union> set upgrades_v2
   \<and> getCost ((upgrades_v1 ! 0)\<lparr>count := 3\<rparr>) = 10 * 1.15 ^ 3
   \<and> getCost ((upgrades_v1 ! 0)\<lparr>count := 3 + 1\<rparr>) = getCost ((upgrades_v1 ! 0)\<lparr>count := 3\<rparr>) * 1.15
   \<and> getCost ((upgrades_v1 ! 0)\<lparr>count := 3\<rparr>) < getCost ((upgrades_v1 ! 0)\<lparr>count := 3 + 1\<rparr>)"
proof -
  have known: "upgrades_v1 ! 0 \<in> set upgrades_v1 \<union> set upgrades_v2"
    by (simp add: upgrades_v1_def)
  have fields: "baseCost (upgrades_v1 ! 0) = 10" "costMult (upgrades_v1 ! 0) = 1.15"
    by (simp_all add: upgrades_v1_def)
  from getCost_exponential [OF known, of 3] known fields show ?thesis
    by simp
qed

subsection \<open>The target\<close>

lemma getZenithTarget_pos: "0 < getZenithTarget_v1 s" "0 < getZenithTarget_v2 t"
  by (simp_all add: getZenithTarget_v1_def getZenithTarget_v2_def)

lemma powr_ratio: "(10::real) powr a / 10 powr b = 10 powr (a - b)"
  by (simp add: powr_diff)

text \<open>
  Claim C7. Raising the coherence by one multiplies the target by a constant: the
  target at coherence \<open>c + 1\<close> divided by the target at \<open>c\<close> is \<open>10 powr 1.2\<close> in variant 1
  and \<open>10 powr 1.5\<close> in variant 2, whatever \<open>c\<close> is (so also for every \<open>c \<ge> 1\<close>).
\<close>

theorem getZenithTarget_ratio:
  "getZenithTarget_v1 (s\<lparr>coherence := coherence s + 1\<rparr>) / getZenithTarget_v1 s = 10 powr 1.2
   \<and> getZenithTarget_v2 (t\<lparr>coherence := coherence t + 1\<rparr>) / getZenithTarget_v2 t = 10 powr 1.5"
proof
  have e: "15 + 1.2 * (c + 1 - 1) - (15 + 1.2 * (c - 1)) = 1.2" for c :: real
    by (simp add: field_simps)
  have "getZenithTarget_v1 (s\<lparr>coherence := coherence s + 1\<rparr>) / getZenithTarget_v1 s
      = 10 powr (15 + 1.2 * (coherence s + 1 - 1) - (15 + 1.2 * (coherence s - 1)))"
    unfolding getZenithTarget_v1_def powr_ratio by simp
  also have "\<dots> = 10 powr 1.2"
    by (simp only: e)
  finally show "getZenithTarget_v1 (s\<lparr>coherence := coherence s + 1\<rparr>) / getZenithTarget_v1 s
      = 10 powr 1.2" .
next
  have e: "15 + 1.5 * (c + 1 - 1) - (15 + 1.5 * (c - 1)) = 1.5" for c :: real
    by (simp add: field_simps)
  have "getZenithTarget_v2 (t\<lparr>coherence := coherence t + 1\<rparr>) / getZenithTarget_v2 t
      = 10 powr (15 + 1.5 * (coherence t + 1 - 1) - (15 + 1.5 * (coherence t - 1)))"
    unfolding getZenithTarget_v2_def powr_ratio by simp
  also have "\<dots> = 10 powr 1.5"
    by (simp only: e)
  finally show "getZenithTarget_v2 (t\<lparr>coherence := coherence t + 1\<rparr>) / getZenithTarget_v2 t
      = 10 powr 1.5" .
qed

subsection \<open>The progress shown\<close>

text \<open>
  Claim C1. The progress \<open>updateUI\<close> computes lies in \<open>[0, 100)\<close>: in variant 1 for every
  engine with \<open>flux \<ge> 0\<close>, however large the flux is against the target; in variant 2
  for every engine, whatever its distance.
\<close>

theorem completion_below_100:
  "(0 \<le> flux s \<longrightarrow> 0 \<le> clampedProgress_v1 s \<and> clampedProgress_v1 s < 100)
   \<and> 0 \<le> clamped_v2 t \<and> clamped_v2 t < 100"
  using getZenithTarget_pos(1) [of s]
  by (simp add: clampedProgress_v1_def clamped_v2_def Let_def min_def max_def)

text \<open>
  The witness takes the flux at a million times the target of coherence 1, the test
  the specification names.
\<close>

theorem completion_below_100_witness:
  "flux ((GameEngine_v1 0 None)\<lparr>flux := 10 ^ 21\<rparr>)
      = getZenithTarget_v1 ((GameEngine_v1 0 None)\<lparr>flux := 10 ^ 21\<rparr>) * 10 ^ 6
   \<and> 0 \<le> flux ((GameEngine_v1 0 None)\<lparr>flux := 10 ^ 21\<rparr>)
   \<and> 0 \<le> clampedProgress_v1 ((GameEngine_v1 0 None)\<lparr>flux := 10 ^ 21\<rparr>)
   \<and> clampedProgress_v1 ((GameEngine_v1 0 None)\<lparr>flux := 10 ^ 21\<rparr>) < 100
   \<and> 0 \<le> clamped_v2 ((GameEngine_v2 0)\<lparr>distance := 0\<rparr>)
   \<and> clamped_v2 ((GameEngine_v2 0)\<lparr>distance := 0\<rparr>) < 100"
proof -
  have "flux ((GameEngine_v1 0 None)\<lparr>flux := 10 ^ 21\<rparr>)
      = getZenithTarget_v1 ((GameEngine_v1 0 None)\<lparr>flux := 10 ^ 21\<rparr>) * 10 ^ 6"
    by (simp add: GameEngine_v1_def getZenithTarget_v1_def)
  moreover have "0 \<le> flux ((GameEngine_v1 0 None)\<lparr>flux := 10 ^ 21\<rparr>)"
    by simp
  ultimately show ?thesis
    using completion_below_100 [of "(GameEngine_v1 0 None)\<lparr>flux := 10 ^ 21\<rparr>"
        "(GameEngine_v2 0)\<lparr>distance := 0\<rparr>"]
    by blast
qed

lemma clampedProgress_v1_saturates:
  "clampedProgress_v1 ((GameEngine_v1 0 None)\<lparr>flux := 10 ^ 21\<rparr>) = 99.999999"
  by (simp add: clampedProgress_v1_def GameEngine_v1_def getZenithTarget_v1_def)

subsection \<open>Buying an upgrade\<close>

lemma update_found_nth:
  "find_upgrade i us = Some u \<Longrightarrow>
     \<exists>k<length us. us ! k = u \<and> update_found i f us = us[k := f u]"
proof (induction us)
  case Nil
  then show ?case by (simp add: find_upgrade_def)
next
  case (Cons a us)
  show ?case
  proof (cases "id_u a = i")
    case True
    with Cons.prems have "a = u"
      by (simp add: find_upgrade_def)
    with True have "(a # us) ! 0 = u \<and> update_found i f (a # us) = (a # us)[0 := f u]"
      by simp
    then show ?thesis by blast
  next
    case False
    with Cons.prems have "find_upgrade i us = Some u"
      by (simp add: find_upgrade_def)
    from Cons.IH [OF this] obtain k
      where k: "k < length us" "us ! k = u" "update_found i f us = us[k := f u]"
      by blast
    with False have "Suc k < length (a # us) \<and> (a # us) ! Suc k = u
        \<and> update_found i f (a # us) = (a # us)[Suc k := f u]"
      by simp
    then show ?thesis by blast
  qed
qed

lemma buyUpgrade_v1_declined:
  "find_upgrade i (upgrades s) = Some u \<Longrightarrow> flux s < getCost u \<Longrightarrow> buyUpgrade_v1 i s = Inr s"
  by (simp add: buyUpgrade_v1_def)

lemma buyUpgrade_v1_bought:
  assumes "find_upgrade i (upgrades s) = Some u" "getCost u \<le> flux s"
  shows "\<exists>k<length (upgrades s). upgrades s ! k = u \<and>
     buyUpgrade_v1 i s = Inr (s\<lparr>flux := flux s - getCost u,
        upgrades := (upgrades s)[k := u\<lparr>count := count u + 1\<rparr>]\<rparr>)"
proof -
  from update_found_nth [OF assms(1), of "\<lambda>u. u\<lparr>count := count u + 1\<rparr>"]
  obtain k where k: "k < length (upgrades s)" "upgrades s ! k = u"
     "update_found i (\<lambda>u. u\<lparr>count := count u + 1\<rparr>) (upgrades s)
        = (upgrades s)[k := u\<lparr>count := count u + 1\<rparr>]"
    by blast
  with assms have "buyUpgrade_v1 i s = Inr (s\<lparr>flux := flux s - getCost u,
        upgrades := (upgrades s)[k := u\<lparr>count := count u + 1\<rparr>]\<rparr>)"
    by (simp add: buyUpgrade_v1_def)
  with k show ?thesis by blast
qed

lemma buyUpgrade_v2_declined:
  "find_upgrade i (upgrades s) = Some u \<Longrightarrow> flux s < getCost u \<Longrightarrow> buyUpgrade_v2 i s = Inr s"
  by (simp add: buyUpgrade_v2_def)

lemma buyUpgrade_v2_bought:
  assumes "find_upgrade i (upgrades s) = Some u" "getCost u \<le> flux s"
  shows "\<exists>k<length (upgrades s). upgrades s ! k = u \<and>
     buyUpgrade_v2 i s = Inr (s\<lparr>flux := flux s - getCost u,
        upgrades := (upgrades s)[k := u\<lparr>count := count u + 1\<rparr>]\<rparr>)"
proof -
  from update_found_nth [OF assms(1), of "\<lambda>u. u\<lparr>count := count u + 1\<rparr>"]
  obtain k where k: "k < length (upgrades s)" "upgrades s ! k = u"
     "update_found i (\<lambda>u. u\<lparr>count := count u + 1\<rparr>) (upgrades s)
        = (upgrades s)[k := u\<lparr>count := count u + 1\<rparr>]"
    by blast
  with assms have "buyUpgrade_v2 i s = Inr (s\<lparr>flux := flux s - getCost u,
        upgrades := (upgrades s)[k := u\<lparr>count := count u + 1\<rparr>]\<rparr>)"
    by (simp add: buyUpgrade_v2_def)
  with k show ?thesis by blast
qed

text \<open>
  Claim C3. Let \<open>find\<close> return the upgrade \<open>u\<close> for the id (a known id). If the flux is
  below \<open>getCost u\<close>, \<open>buyUpgrade\<close> returns the engine unchanged. Otherwise the new engine
  is the old one with the flux lowered by \<open>getCost u\<close>, the cost at the count before the
  purchase, and with the one array element that held \<open>u\<close> replaced by \<open>u\<close> with its count
  raised by 1; nothing else changes. Both variants.
\<close>

theorem buyUpgrade_effect:
  "(find_upgrade i (upgrades s) = Some u \<longrightarrow>
      (flux s < getCost u \<longrightarrow> buyUpgrade_v1 i s = Inr s) \<and>
      (getCost u \<le> flux s \<longrightarrow>
         (\<exists>k<length (upgrades s). upgrades s ! k = u \<and>
            buyUpgrade_v1 i s = Inr (s\<lparr>flux := flux s - getCost u,
              upgrades := (upgrades s)[k := u\<lparr>count := count u + 1\<rparr>]\<rparr>))))
   \<and> (find_upgrade j (upgrades t) = Some v \<longrightarrow>
      (flux t < getCost v \<longrightarrow> buyUpgrade_v2 j t = Inr t) \<and>
      (getCost v \<le> flux t \<longrightarrow>
         (\<exists>k<length (upgrades t). upgrades t ! k = v \<and>
            buyUpgrade_v2 j t = Inr (t\<lparr>flux := flux t - getCost v,
              upgrades := (upgrades t)[k := v\<lparr>count := count v + 1\<rparr>]\<rparr>))))"
  using buyUpgrade_v1_declined buyUpgrade_v1_bought buyUpgrade_v2_declined buyUpgrade_v2_bought
  by blast

text \<open>
  The witness: the new engine, with flux 0, is refused \<open>u1\<close> (cost 10 in variant 1, 15
  in variant 2); the engine holding \<open>10 ^ 10\<close> gets it.
\<close>

theorem buyUpgrade_effect_witness:
  "find_upgrade ''u1'' (upgrades (GameEngine_v1 0 None)) = Some (upgrades_v1 ! 0)
   \<and> flux (GameEngine_v1 0 None) < getCost (upgrades_v1 ! 0)
   \<and> buyUpgrade_v1 ''u1'' (GameEngine_v1 0 None) = Inr (GameEngine_v1 0 None)
   \<and> find_upgrade ''u1'' (upgrades reboot_ready_v1) = Some (upgrades_v1 ! 0)
   \<and> getCost (upgrades_v1 ! 0) \<le> flux reboot_ready_v1
   \<and> (\<exists>k<length (upgrades reboot_ready_v1). upgrades reboot_ready_v1 ! k = upgrades_v1 ! 0 \<and>
        buyUpgrade_v1 ''u1'' reboot_ready_v1
          = Inr (reboot_ready_v1\<lparr>flux := flux reboot_ready_v1 - getCost (upgrades_v1 ! 0),
              upgrades := (upgrades reboot_ready_v1)
                [k := (upgrades_v1 ! 0)\<lparr>count := count (upgrades_v1 ! 0) + 1\<rparr>]\<rparr>))
   \<and> find_upgrade ''u1'' (upgrades (GameEngine_v2 0)) = Some (upgrades_v2 ! 0)
   \<and> flux (GameEngine_v2 0) < getCost (upgrades_v2 ! 0)
   \<and> buyUpgrade_v2 ''u1'' (GameEngine_v2 0) = Inr (GameEngine_v2 0)
   \<and> find_upgrade ''u1'' (upgrades reboot_ready_v2) = Some (upgrades_v2 ! 0)
   \<and> getCost (upgrades_v2 ! 0) \<le> flux reboot_ready_v2
   \<and> (\<exists>k<length (upgrades reboot_ready_v2). upgrades reboot_ready_v2 ! k = upgrades_v2 ! 0 \<and>
        buyUpgrade_v2 ''u1'' reboot_ready_v2
          = Inr (reboot_ready_v2\<lparr>flux := flux reboot_ready_v2 - getCost (upgrades_v2 ! 0),
              upgrades := (upgrades reboot_ready_v2)
                [k := (upgrades_v2 ! 0)\<lparr>count := count (upgrades_v2 ! 0) + 1\<rparr>]\<rparr>))"
proof -
  have f1: "find_upgrade ''u1'' (upgrades (GameEngine_v1 0 None)) = Some (upgrades_v1 ! 0)"
    "find_upgrade ''u1'' (upgrades reboot_ready_v1) = Some (upgrades_v1 ! 0)"
    by (simp_all add: find_upgrade_def reboot_ready_v1_def GameEngine_v1_def upgrades_v1_def)
  have f2: "find_upgrade ''u1'' (upgrades (GameEngine_v2 0)) = Some (upgrades_v2 ! 0)"
    "find_upgrade ''u1'' (upgrades reboot_ready_v2) = Some (upgrades_v2 ! 0)"
    by (simp_all add: find_upgrade_def reboot_ready_v2_def GameEngine_v2_def upgrades_v2_def)
  have c1: "flux (GameEngine_v1 0 None) < getCost (upgrades_v1 ! 0)"
    "getCost (upgrades_v1 ! 0) \<le> flux reboot_ready_v1"
    by (simp_all add: getCost_def reboot_ready_v1_def GameEngine_v1_def upgrades_v1_def)
  have c2: "flux (GameEngine_v2 0) < getCost (upgrades_v2 ! 0)"
    "getCost (upgrades_v2 ! 0) \<le> flux reboot_ready_v2"
    by (simp_all add: getCost_def reboot_ready_v2_def GameEngine_v2_def upgrades_v2_def)
  from buyUpgrade_effect [where i = "''u1''" and s = "GameEngine_v1 0 None"
      and u = "upgrades_v1 ! 0" and j = "''u1''" and t = "GameEngine_v2 0"
      and v = "upgrades_v2 ! 0"]
    buyUpgrade_effect [where i = "''u1''" and s = reboot_ready_v1
      and u = "upgrades_v1 ! 0" and j = "''u1''" and t = reboot_ready_v2
      and v = "upgrades_v2 ! 0"]
    f1 f2 c1 c2
  show ?thesis
    by blast
qed

subsection \<open>Rebooting\<close>

lemma executeReboot_v1_declined:
  "flux s < getRebootRequirement_v1 s \<Longrightarrow> executeReboot_v1 s = s"
  by (simp add: executeReboot_v1_def Let_def)

lemma executeReboot_v1_done:
  "getRebootRequirement_v1 s \<le> flux s \<Longrightarrow>
     executeReboot_v1 s = s\<lparr>coherence := coherence s + 1, flux := 0,
       upgrades := map (\<lambda>u. u\<lparr>count := 0\<rparr>) (upgrades s), rebootCount := rebootCount s + 1\<rparr>"
  by (simp add: executeReboot_v1_def Let_def)

lemma executeReboot_v2_declined:
  "flux s < getRebootRequirement_v2 s \<Longrightarrow> executeReboot_v2 s = s"
  by (simp add: executeReboot_v2_def Let_def)

lemma executeReboot_v2_done:
  "getRebootRequirement_v2 s \<le> flux s \<Longrightarrow>
     executeReboot_v2 s = s\<lparr>coherence := coherence s + 1, reboots := reboots s + 1, flux := 0,
       upgrades := map (\<lambda>u. u\<lparr>count := 0\<rparr>) (upgrades s),
       baseDistance := 10 powr (15 + (1.5 * (coherence s + 1 - 1))),
       distance := 10 powr (15 + (1.5 * (coherence s + 1 - 1)))\<rparr>"
  by (simp add: executeReboot_v2_def Let_def getZenithTarget_v2_def)

lemma counts_zero: "list_all (\<lambda>u. count u = 0) (map (\<lambda>u. u\<lparr>count := 0\<rparr>) us)"
  by (simp add: list_all_iff)

lemma executeReboot_keeps_upgrade_ids:
  "getRebootRequirement_v1 s \<le> flux s \<Longrightarrow>
     map id_u (upgrades (executeReboot_v1 s)) = map id_u (upgrades s)"
  "getRebootRequirement_v2 t \<le> flux t \<Longrightarrow>
     map id_u (upgrades (executeReboot_v2 t)) = map id_u (upgrades t)"
  by (simp_all add: executeReboot_v1_done executeReboot_v2_done comp_def)

lemma reboot_ready_meets:
  "getRebootRequirement_v1 reboot_ready_v1 \<le> flux reboot_ready_v1"
  "getRebootRequirement_v2 reboot_ready_v2 \<le> flux reboot_ready_v2"
  by (simp_all add: getRebootRequirement_v1_def getRebootRequirement_v2_def
      reboot_ready_v1_def reboot_ready_v2_def GameEngine_v1_def GameEngine_v2_def)

text \<open>
  Claim C2. Below the requirement \<open>executeReboot\<close> returns the engine unchanged. At or
  above it, the coherence rises by exactly 1, the flux becomes 0, the array of
  upgrades is the old one with every count set to 0 (so every count is 0 and no
  upgrade is lost or otherwise changed), the reboot counter rises by 1 and the
  target is strictly larger than before; in variant 2 the distance is the target
  computed at the new coherence.
\<close>

theorem executeReboot_effect:
  "(flux s < getRebootRequirement_v1 s \<longrightarrow> executeReboot_v1 s = s)
   \<and> (getRebootRequirement_v1 s \<le> flux s \<longrightarrow>
        coherence (executeReboot_v1 s) = coherence s + 1
      \<and> flux (executeReboot_v1 s) = 0
      \<and> upgrades (executeReboot_v1 s) = map (\<lambda>u. u\<lparr>count := 0\<rparr>) (upgrades s)
      \<and> list_all (\<lambda>u. count u = 0) (upgrades (executeReboot_v1 s))
      \<and> rebootCount (executeReboot_v1 s) = rebootCount s + 1
      \<and> getZenithTarget_v1 s < getZenithTarget_v1 (executeReboot_v1 s))
   \<and> (flux t < getRebootRequirement_v2 t \<longrightarrow> executeReboot_v2 t = t)
   \<and> (getRebootRequirement_v2 t \<le> flux t \<longrightarrow>
        coherence (executeReboot_v2 t) = coherence t + 1
      \<and> flux (executeReboot_v2 t) = 0
      \<and> upgrades (executeReboot_v2 t) = map (\<lambda>u. u\<lparr>count := 0\<rparr>) (upgrades t)
      \<and> list_all (\<lambda>u. count u = 0) (upgrades (executeReboot_v2 t))
      \<and> reboots (executeReboot_v2 t) = reboots t + 1
      \<and> getZenithTarget_v2 t < getZenithTarget_v2 (executeReboot_v2 t)
      \<and> distance (executeReboot_v2 t) = getZenithTarget_v2 (executeReboot_v2 t))"
proof -
  have v1: "executeReboot_v1 s = s" if "flux s < getRebootRequirement_v1 s"
    using that by (rule executeReboot_v1_declined)
  have v1': "coherence (executeReboot_v1 s) = coherence s + 1
      \<and> flux (executeReboot_v1 s) = 0
      \<and> upgrades (executeReboot_v1 s) = map (\<lambda>u. u\<lparr>count := 0\<rparr>) (upgrades s)
      \<and> list_all (\<lambda>u. count u = 0) (upgrades (executeReboot_v1 s))
      \<and> rebootCount (executeReboot_v1 s) = rebootCount s + 1
      \<and> getZenithTarget_v1 s < getZenithTarget_v1 (executeReboot_v1 s)"
    if "getRebootRequirement_v1 s \<le> flux s"
    by (simp add: executeReboot_v1_done [OF that] counts_zero getZenithTarget_v1_def)
  have v2: "executeReboot_v2 t = t" if "flux t < getRebootRequirement_v2 t"
    using that by (rule executeReboot_v2_declined)
  have v2': "coherence (executeReboot_v2 t) = coherence t + 1
      \<and> flux (executeReboot_v2 t) = 0
      \<and> upgrades (executeReboot_v2 t) = map (\<lambda>u. u\<lparr>count := 0\<rparr>) (upgrades t)
      \<and> list_all (\<lambda>u. count u = 0) (upgrades (executeReboot_v2 t))
      \<and> reboots (executeReboot_v2 t) = reboots t + 1
      \<and> getZenithTarget_v2 t < getZenithTarget_v2 (executeReboot_v2 t)
      \<and> distance (executeReboot_v2 t) = getZenithTarget_v2 (executeReboot_v2 t)"
    if "getRebootRequirement_v2 t \<le> flux t"
    by (simp add: executeReboot_v2_done [OF that] counts_zero getZenithTarget_v2_def)
  from v1 v1' v2 v2' show ?thesis by blast
qed

text \<open>
  The witness: at coherence 1 the requirement is \<open>10 ^ 10\<close>; the new engine, with flux
  0, is left as it is, and the engine holding \<open>10 ^ 10\<close> is rebooted.
\<close>

theorem executeReboot_effect_witness:
  "flux (GameEngine_v1 0 None) < getRebootRequirement_v1 (GameEngine_v1 0 None)
   \<and> executeReboot_v1 (GameEngine_v1 0 None) = GameEngine_v1 0 None
   \<and> getRebootRequirement_v1 reboot_ready_v1 \<le> flux reboot_ready_v1
   \<and> coherence (executeReboot_v1 reboot_ready_v1) = coherence reboot_ready_v1 + 1
   \<and> flux (executeReboot_v1 reboot_ready_v1) = 0
   \<and> upgrades (executeReboot_v1 reboot_ready_v1) = map (\<lambda>u. u\<lparr>count := 0\<rparr>) (upgrades reboot_ready_v1)
   \<and> list_all (\<lambda>u. count u = 0) (upgrades (executeReboot_v1 reboot_ready_v1))
   \<and> rebootCount (executeReboot_v1 reboot_ready_v1) = rebootCount reboot_ready_v1 + 1
   \<and> getZenithTarget_v1 reboot_ready_v1 < getZenithTarget_v1 (executeReboot_v1 reboot_ready_v1)
   \<and> flux (GameEngine_v2 0) < getRebootRequirement_v2 (GameEngine_v2 0)
   \<and> executeReboot_v2 (GameEngine_v2 0) = GameEngine_v2 0
   \<and> getRebootRequirement_v2 reboot_ready_v2 \<le> flux reboot_ready_v2
   \<and> coherence (executeReboot_v2 reboot_ready_v2) = coherence reboot_ready_v2 + 1
   \<and> flux (executeReboot_v2 reboot_ready_v2) = 0
   \<and> upgrades (executeReboot_v2 reboot_ready_v2) = map (\<lambda>u. u\<lparr>count := 0\<rparr>) (upgrades reboot_ready_v2)
   \<and> list_all (\<lambda>u. count u = 0) (upgrades (executeReboot_v2 reboot_ready_v2))
   \<and> reboots (executeReboot_v2 reboot_ready_v2) = reboots reboot_ready_v2 + 1
   \<and> getZenithTarget_v2 reboot_ready_v2 < getZenithTarget_v2 (executeReboot_v2 reboot_ready_v2)
   \<and> distance (executeReboot_v2 reboot_ready_v2)
        = getZenithTarget_v2 (executeReboot_v2 reboot_ready_v2)"
proof -
  have below: "flux (GameEngine_v1 0 None) < getRebootRequirement_v1 (GameEngine_v1 0 None)"
    "flux (GameEngine_v2 0) < getRebootRequirement_v2 (GameEngine_v2 0)"
    by (simp_all add: getRebootRequirement_v1_def getRebootRequirement_v2_def
        GameEngine_v1_def GameEngine_v2_def)
  from executeReboot_effect [of "GameEngine_v1 0 None" "GameEngine_v2 0"]
    executeReboot_effect [of reboot_ready_v1 reboot_ready_v2]
    below reboot_ready_meets
  show ?thesis
    by blast
qed

text \<open>
  Claim C10. A reboot that meets the requirement leaves \<open>totalFlux\<close> as it was, in both
  variants.
\<close>

theorem executeReboot_keeps_totalFlux:
  "(getRebootRequirement_v1 s \<le> flux s \<longrightarrow> totalFlux (executeReboot_v1 s) = totalFlux s)
   \<and> (getRebootRequirement_v2 t \<le> flux t \<longrightarrow> totalFlux (executeReboot_v2 t) = totalFlux t)"
  by (simp add: executeReboot_v1_def executeReboot_v2_def Let_def)

text \<open>
  The witness: the engines that have accrued \<open>10 ^ 10\<close> and still hold it are rebooted
  and keep that total.
\<close>

theorem executeReboot_keeps_totalFlux_witness:
  "getRebootRequirement_v1 reboot_ready_v1 \<le> flux reboot_ready_v1
   \<and> totalFlux (executeReboot_v1 reboot_ready_v1) = totalFlux reboot_ready_v1
   \<and> getRebootRequirement_v2 reboot_ready_v2 \<le> flux reboot_ready_v2
   \<and> totalFlux (executeReboot_v2 reboot_ready_v2) = totalFlux reboot_ready_v2"
  using executeReboot_keeps_totalFlux [of reboot_ready_v1 reboot_ready_v2] reboot_ready_meets
  by blast

lemma reboot_ready_totalFlux:
  "totalFlux reboot_ready_v1 = 10 ^ 10" "totalFlux reboot_ready_v2 = 10 ^ 10"
  by (simp_all add: reboot_ready_v1_def reboot_ready_v2_def)

subsection \<open>The tick\<close>

lemma getRate_lastTick:
  "getRate_v1 (s\<lparr>lastTick := n\<rparr>) = getRate_v1 s"
  "getRate_v2 (t\<lparr>lastTick := n\<rparr>) = getRate_v2 t"
  by (simp_all add: getRate_v1_def getRate_v2_def)

lemma tick_flux:
  "flux (startLoop_tick_v1 now s) = flux s + getRate_v1 s * elapsed_v1 now s"
  "flux (animate_v2 now t) = flux t + getRate_v2 t * elapsed_v2 now t"
  by (simp_all add: startLoop_tick_v1_def animate_v2_def addFlux_v1_def addFlux_v2_def Let_def
      getRate_lastTick)

lemma tick_totalFlux:
  "totalFlux (startLoop_tick_v1 now s) = totalFlux s + getRate_v1 s * elapsed_v1 now s"
  "totalFlux (animate_v2 now t) = totalFlux t + getRate_v2 t * elapsed_v2 now t"
  by (simp_all add: startLoop_tick_v1_def animate_v2_def addFlux_v1_def addFlux_v2_def Let_def
      getRate_lastTick)

lemma owning_one_fields:
  "flux owning_one_v1 = 0" "totalFlux owning_one_v1 = 0" "lastTick owning_one_v1 = 1000"
  "coherence owning_one_v1 = 1"
  "flux owning_one_v2 = 0" "totalFlux owning_one_v2 = 0" "lastTick owning_one_v2 = 1000"
  "coherence owning_one_v2 = 1"
  by (simp_all add: owning_one_v1_def owning_one_v2_def GameEngine_v1_def GameEngine_v2_def)

lemma owning_one_rate: "getRate_v1 owning_one_v1 = 1 / 2" "getRate_v2 owning_one_v2 = 1"
  by (simp_all add: getRate_v1_def getRate_v2_def owning_one_v1_def owning_one_v2_def
      GameEngine_v1_def GameEngine_v2_def upgrades_v1_def upgrades_v2_def
      getRate_each_v1_def getRate_each_v2_def no_type_def)

text \<open>
  Claim C4, as amended. The tick has no failing path and no clamp: whatever the
  clock reading, also one before \<open>lastTick\<close>, it adds the rate times the elapsed
  seconds to the flux and to the total flux. So a negative elapsed time with a
  positive rate lowers both.
\<close>

theorem tick_adds_rate_times_elapsed:
  "flux (startLoop_tick_v1 now s) = flux s + getRate_v1 s * elapsed_v1 now s
   \<and> totalFlux (startLoop_tick_v1 now s) = totalFlux s + getRate_v1 s * elapsed_v1 now s
   \<and> flux (animate_v2 now t) = flux t + getRate_v2 t * elapsed_v2 now t
   \<and> totalFlux (animate_v2 now t) = totalFlux t + getRate_v2 t * elapsed_v2 now t"
  by (simp add: tick_flux tick_totalFlux)

text \<open>
  Claim C4 as stated fails. The engine owning one \<open>u1\<close> has rate 1/2 and last ticked at
  1000 ms. A tick at clock reading 0 sees \<open>delta = - 1\<close> and takes the flux and the total
  flux from 0 to - 1/2, where a tick with elapsed time 0 (clock reading 1000) leaves
  them at 0.
\<close>

theorem tick_negative_elapsed_decreases:
  "elapsed_v1 0 owning_one_v1 = - 1
   \<and> flux owning_one_v1 = 0 \<and> totalFlux owning_one_v1 = 0
   \<and> flux (startLoop_tick_v1 0 owning_one_v1) = - 1 / 2
   \<and> totalFlux (startLoop_tick_v1 0 owning_one_v1) = - 1 / 2
   \<and> elapsed_v1 1000 owning_one_v1 = 0
   \<and> flux (startLoop_tick_v1 1000 owning_one_v1) = 0
   \<and> totalFlux (startLoop_tick_v1 1000 owning_one_v1) = 0"
  by (simp add: tick_flux tick_totalFlux owning_one_rate owning_one_fields elapsed_v1_def)

subsection \<open>The flux stays non-negative\<close>

lemma fold_getRate_each_v1_nonneg:
  "list_all (\<lambda>u. 0 \<le> power_u u) us \<Longrightarrow> 0 \<le> fst bm \<Longrightarrow> 0 \<le> snd bm \<Longrightarrow>
     0 \<le> fst (fold getRate_each_v1 us bm) \<and> 0 \<le> snd (fold getRate_each_v1 us bm)"
  by (induction us arbitrary: bm) (simp_all add: getRate_each_v1_def)

lemma fold_getRate_each_v2_nonneg:
  "list_all (\<lambda>u. 0 \<le> power_u u) us \<Longrightarrow> 0 \<le> fst bm \<Longrightarrow> 0 \<le> snd bm \<Longrightarrow>
     0 \<le> fst (fold getRate_each_v2 us bm) \<and> 0 \<le> snd (fold getRate_each_v2 us bm)"
  by (induction us arbitrary: bm) (simp_all add: getRate_each_v2_def)

lemma getRate_v1_nonneg:
  "list_all (\<lambda>u. 0 \<le> power_u u) (upgrades s) \<Longrightarrow> 0 \<le> coherence s \<Longrightarrow> 0 \<le> getRate_v1 s"
  using fold_getRate_each_v1_nonneg [of "upgrades s" "(0, 1)"]
  by (simp add: getRate_v1_def Let_def)

lemma getRate_v2_nonneg:
  "list_all (\<lambda>u. 0 \<le> power_u u) (upgrades s) \<Longrightarrow> 0 \<le> coherence s \<Longrightarrow> 0 \<le> getRate_v2 s"
  using fold_getRate_each_v2_nonneg [of "upgrades s" "(0, 1)"]
  by (simp add: getRate_v2_def Let_def)

lemma elapsed_nonneg:
  "lastTick s \<le> now \<Longrightarrow> 0 \<le> elapsed_v1 now s"
  "lastTick t \<le> now \<Longrightarrow> 0 \<le> elapsed_v2 now t"
  by (simp_all add: elapsed_v1_def elapsed_v2_def)

lemma buyUpgrade_flux_nonneg:
  "0 \<le> flux s \<Longrightarrow> buyUpgrade_v1 i s = Inr s' \<Longrightarrow> 0 \<le> flux s'"
  "0 \<le> flux t \<Longrightarrow> buyUpgrade_v2 i t = Inr t' \<Longrightarrow> 0 \<le> flux t'"
  by (auto simp: buyUpgrade_v1_def buyUpgrade_v2_def Let_def split: option.splits if_splits)

lemma executeReboot_flux_nonneg:
  "0 \<le> flux s \<Longrightarrow> 0 \<le> flux (executeReboot_v1 s)"
  "0 \<le> flux t \<Longrightarrow> 0 \<le> flux (executeReboot_v2 t)"
  by (simp_all add: executeReboot_v1_def executeReboot_v2_def Let_def)

lemma collect_flux_nonneg:
  "0 \<le> flux s \<Longrightarrow> 0 \<le> coherence s \<Longrightarrow> 0 \<le> flux (collect_v1 s)"
  "0 \<le> flux t \<Longrightarrow> 0 \<le> flux (collect_v2 t)"
  by (simp_all add: collect_v1_def collect_v2_def addFlux_v1_def addFlux_v2_def Let_def)

text \<open>
  Claim C5, as amended. From an engine with \<open>flux \<ge> 0\<close>, \<open>coherence \<ge> 0\<close> (the data
  model has it at 1 or more) and upgrade powers \<open>\<ge> 0\<close>, the flux is still \<open>\<ge> 0\<close> after
  a collect, after a purchase that returns, after a reboot, and after a tick whose
  clock reading is not before \<open>lastTick\<close>. Both variants.
\<close>

theorem flux_nonneg_preserved:
  assumes "0 \<le> flux s" "0 \<le> coherence s" "list_all (\<lambda>u. 0 \<le> power_u u) (upgrades s)"
    and "0 \<le> flux t" "0 \<le> coherence t" "list_all (\<lambda>u. 0 \<le> power_u u) (upgrades t)"
  shows "(lastTick s \<le> now \<longrightarrow> 0 \<le> flux (startLoop_tick_v1 now s))
       \<and> 0 \<le> flux (collect_v1 s)
       \<and> (\<forall>s'. buyUpgrade_v1 i s = Inr s' \<longrightarrow> 0 \<le> flux s')
       \<and> 0 \<le> flux (executeReboot_v1 s)
       \<and> (lastTick t \<le> now \<longrightarrow> 0 \<le> flux (animate_v2 now t))
       \<and> 0 \<le> flux (collect_v2 t)
       \<and> (\<forall>t'. buyUpgrade_v2 i t = Inr t' \<longrightarrow> 0 \<le> flux t')
       \<and> 0 \<le> flux (executeReboot_v2 t)"
proof -
  have "0 \<le> flux (startLoop_tick_v1 now s)" if "lastTick s \<le> now"
    using assms(1) getRate_v1_nonneg [OF assms(3,2)] elapsed_nonneg(1) [OF that]
    by (simp add: tick_flux)
  moreover have "0 \<le> flux (animate_v2 now t)" if "lastTick t \<le> now"
    using assms(4) getRate_v2_nonneg [OF assms(6,5)] elapsed_nonneg(2) [OF that]
    by (simp add: tick_flux)
  ultimately show ?thesis
    using assms buyUpgrade_flux_nonneg executeReboot_flux_nonneg collect_flux_nonneg
    by blast
qed

text \<open>
  The witness: the engines owning one \<open>u1\<close>, given a flux of 12, ticked one second
  after their last tick, and buying a second \<open>u1\<close>.
\<close>

theorem flux_nonneg_preserved_witness:
  "0 \<le> flux (owning_one_v1\<lparr>flux := 12\<rparr>) \<and> 0 \<le> coherence (owning_one_v1\<lparr>flux := 12\<rparr>)
   \<and> list_all (\<lambda>u. 0 \<le> power_u u) (upgrades (owning_one_v1\<lparr>flux := 12\<rparr>))
   \<and> lastTick (owning_one_v1\<lparr>flux := 12\<rparr>) \<le> 2000
   \<and> 0 \<le> flux (startLoop_tick_v1 2000 (owning_one_v1\<lparr>flux := 12\<rparr>))
   \<and> 0 \<le> flux (collect_v1 (owning_one_v1\<lparr>flux := 12\<rparr>))
   \<and> (\<exists>s'. buyUpgrade_v1 ''u1'' (owning_one_v1\<lparr>flux := 12\<rparr>) = Inr s' \<and> 0 \<le> flux s')
   \<and> 0 \<le> flux (executeReboot_v1 (owning_one_v1\<lparr>flux := 12\<rparr>))
   \<and> 0 \<le> flux (owning_one_v2\<lparr>flux := 12\<rparr>) \<and> 0 \<le> coherence (owning_one_v2\<lparr>flux := 12\<rparr>)
   \<and> list_all (\<lambda>u. 0 \<le> power_u u) (upgrades (owning_one_v2\<lparr>flux := 12\<rparr>))
   \<and> lastTick (owning_one_v2\<lparr>flux := 12\<rparr>) \<le> 2000
   \<and> 0 \<le> flux (animate_v2 2000 (owning_one_v2\<lparr>flux := 12\<rparr>))
   \<and> 0 \<le> flux (collect_v2 (owning_one_v2\<lparr>flux := 12\<rparr>))
   \<and> (\<exists>t'. buyUpgrade_v2 ''u1'' (owning_one_v2\<lparr>flux := 12\<rparr>) = Inr t' \<and> 0 \<le> flux t')
   \<and> 0 \<le> flux (executeReboot_v2 (owning_one_v2\<lparr>flux := 12\<rparr>))"
proof -
  have h1: "0 \<le> flux (owning_one_v1\<lparr>flux := 12\<rparr>)" "0 \<le> coherence (owning_one_v1\<lparr>flux := 12\<rparr>)"
    "list_all (\<lambda>u. 0 \<le> power_u u) (upgrades (owning_one_v1\<lparr>flux := 12\<rparr>))"
    "lastTick (owning_one_v1\<lparr>flux := 12\<rparr>) \<le> 2000"
    by (simp_all add: owning_one_v1_def GameEngine_v1_def upgrades_v1_def)
  have h2: "0 \<le> flux (owning_one_v2\<lparr>flux := 12\<rparr>)" "0 \<le> coherence (owning_one_v2\<lparr>flux := 12\<rparr>)"
    "list_all (\<lambda>u. 0 \<le> power_u u) (upgrades (owning_one_v2\<lparr>flux := 12\<rparr>))"
    "lastTick (owning_one_v2\<lparr>flux := 12\<rparr>) \<le> 2000"
    by (simp_all add: owning_one_v2_def GameEngine_v2_def upgrades_v2_def)
  have b1: "\<exists>s'. buyUpgrade_v1 ''u1'' (owning_one_v1\<lparr>flux := 12\<rparr>) = Inr s'"
    by (simp add: buyUpgrade_v1_def find_upgrade_def owning_one_v1_def GameEngine_v1_def
        upgrades_v1_def Let_def)
  have b2: "\<exists>t'. buyUpgrade_v2 ''u1'' (owning_one_v2\<lparr>flux := 12\<rparr>) = Inr t'"
    by (simp add: buyUpgrade_v2_def find_upgrade_def owning_one_v2_def GameEngine_v2_def
        upgrades_v2_def Let_def)
  from flux_nonneg_preserved [OF h1(1,2,3) h2(1,2,3), of 2000 "''u1''"] h1 h2 b1 b2
  show ?thesis
    by blast
qed

text \<open>
  Claim C5 as stated fails at the tick. The engines owning one \<open>u1\<close> hold flux 0 and
  last ticked at 1000 ms; a tick at clock reading 0 leaves variant 1 with flux - 1/2
  and variant 2 with flux - 1.
\<close>

theorem tick_drives_flux_negative:
  "0 \<le> flux owning_one_v1 \<and> flux (startLoop_tick_v1 0 owning_one_v1) < 0
   \<and> 0 \<le> flux owning_one_v2 \<and> flux (animate_v2 0 owning_one_v2) < 0"
  by (simp add: tick_flux owning_one_rate owning_one_fields elapsed_v1_def elapsed_v2_def)

subsection \<open>Persistence\<close>

lemma operations_keep_zenith_save:
  "zenith_save (addFlux_v1 a s) = zenith_save s"
  "zenith_save (collect_v1 s) = zenith_save s"
  "zenith_save (startLoop_tick_v1 now s) = zenith_save s"
  "zenith_save (executeReboot_v1 s) = zenith_save s"
  "buyUpgrade_v1 i s = Inr s' \<Longrightarrow> zenith_save s' = zenith_save s"
  by (auto simp: addFlux_v1_def collect_v1_def startLoop_tick_v1_def executeReboot_v1_def
      buyUpgrade_v1_def Let_def split: option.splits if_splits)

lemma loadGame_v1_with_upgrades:
  assumes "zenith_save s = Some data" "s_upgrades data = Some sus"
  shows "\<exists>s'. loadGame_v1 s = Inr s'
     \<and> flux s' = or_default (s_flux data) 0
     \<and> totalFlux s' = or_default (s_totalFlux data) 0
     \<and> coherence s' = or_default (s_coherence data) 1
     \<and> rebootCount s' = or_default (s_rebootCount data) 0"
  using assms by (simp add: loadGame_v1_def Let_def)

text \<open>
  Claim C8, at the failing input. The stored object has the four scalar fields and no
  \<open>upgrades\<close>: \<open>loadGame\<close> throws a \<open>TypeError\<close> at \<open>data.upgrades.forEach\<close>, out of the
  constructor, instead of leaving every count at 0.
\<close>

theorem loadGame_without_upgrades_throws:
  "loadGame_v1 (GameEngine_v1 0 (Some \<lparr>s_flux = Some 5, s_totalFlux = Some 5,
      s_coherence = Some 1, s_rebootCount = Some 0, s_upgrades = None\<rparr>)) = Inl TypeError"
  by (simp add: loadGame_v1_def GameEngine_v1_def)

text \<open>
  Claim C9, at the failing input. With no stored item, a collect, a tick, a purchase
  of \<open>u1\<close> and a reboot each leave the stored item absent: none of them calls
  \<open>saveGame\<close>, which alone would store one.
\<close>

theorem operations_never_save:
  "zenith_save (collect_v1 (GameEngine_v1 0 None)) = None
   \<and> zenith_save (startLoop_tick_v1 50 (GameEngine_v1 0 None)) = None
   \<and> map_sum id zenith_save (buyUpgrade_v1 ''u1'' ((GameEngine_v1 0 None)\<lparr>flux := 10\<rparr>))
       = Inr None
   \<and> flux (executeReboot_v1 ((GameEngine_v1 0 None)\<lparr>flux := 10 ^ 10\<rparr>)) = 0
   \<and> zenith_save (executeReboot_v1 ((GameEngine_v1 0 None)\<lparr>flux := 10 ^ 10\<rparr>)) = None
   \<and> zenith_save (saveGame_v1 (GameEngine_v1 0 None)) \<noteq> None"
  by (simp add: collect_v1_def startLoop_tick_v1_def addFlux_v1_def Let_def buyUpgrade_v1_def
      executeReboot_v1_def saveGame_v1_def GameEngine_v1_def find_upgrade_def upgrades_v1_def
      getCost_def getRebootRequirement_v1_def)

subsection \<open>Further properties of the two variants\<close>

text \<open>An entry of the snapshot whose id no upgrade has is skipped by \<open>loadGame\<close>.\<close>

lemma loadGame_each_v1_unknown:
  "find_upgrade (su_id su) us = None \<Longrightarrow> loadGame_each_v1 su us = us"
  by (simp add: loadGame_each_v1_def)

text \<open>
  Had \<open>saveGame\<close> run, \<open>loadGame\<close> would read back the engine it stored: the same flux,
  total flux, coherence, reboot counter and upgrades, provided the coherence is not 0
  (which \<open>|| 1.0\<close> would replace) and the upgrade ids are distinct.
\<close>

lemma find_upgrade_member:
  "u \<in> set us \<Longrightarrow> distinct (map id_u us) \<Longrightarrow> find_upgrade (id_u u) us = Some u"
  by (induction us) (auto simp: find_upgrade_def)

lemma update_found_same:
  "u \<in> set us \<Longrightarrow> distinct (map id_u us) \<Longrightarrow>
     update_found (id_u u) (\<lambda>v. v\<lparr>count := count u\<rparr>) us = us"
  by (induction us) auto

lemma loadGame_each_v1_same:
  "u \<in> set us \<Longrightarrow> distinct (map id_u us) \<Longrightarrow>
     loadGame_each_v1 \<lparr>su_id = id_u u, su_count = count u\<rparr> us = us"
  by (simp add: loadGame_each_v1_def find_upgrade_member update_found_same)

lemma fold_loadGame_each_v1_same:
  "set vs \<subseteq> set us \<Longrightarrow> distinct (map id_u us) \<Longrightarrow>
     fold loadGame_each_v1 (map (\<lambda>u. \<lparr>su_id = id_u u, su_count = count u\<rparr>) vs) us = us"
  by (induction vs) (simp_all add: loadGame_each_v1_same)

lemma save_load_roundtrip:
  assumes "coherence s \<noteq> 0" "distinct (map id_u (upgrades s))"
  shows "loadGame_v1 (saveGame_v1 s) = Inr (saveGame_v1 s)"
  using assms fold_loadGame_each_v1_same [of "upgrades s" "upgrades s"]
  by (simp add: loadGame_v1_def saveGame_v1_def or_default_def Let_def)

lemma save_load_roundtrip_owning_one:
  "loadGame_v1 (saveGame_v1 owning_one_v1) = Inr (saveGame_v1 owning_one_v1)"
  by (rule save_load_roundtrip)
    (simp_all add: owning_one_v1_def GameEngine_v1_def upgrades_v1_def)

text \<open>The reboot requirement grows strictly with the coherence.\<close>

lemma getRebootRequirement_increasing:
  "(getRebootRequirement_v1 s < getRebootRequirement_v1 s') = (coherence s < coherence s')"
  "(getRebootRequirement_v2 t < getRebootRequirement_v2 t') = (coherence t < coherence t')"
  by (simp_all add: getRebootRequirement_v1_def getRebootRequirement_v2_def)

text \<open>After a frame of variant 2 the distance is never below its floor, \<open>1e5\<close>.\<close>

lemma animate_distance_floor: "10 ^ 5 \<le> distance (animate_v2 now t)"
  by (simp add: animate_v2_def Let_def)

text \<open>A tick of one second on a new engine, which owns no upgrade, leaves the flux at 0.\<close>

lemma first_tick_without_upgrades:
  "flux (startLoop_tick_v1 (now + 1000) (GameEngine_v1 now stored)) = 0"
  "flux (animate_v2 (now + 1000) (GameEngine_v2 now)) = 0"
  by (simp_all add: tick_flux getRate_v1_def getRate_v2_def GameEngine_v1_def GameEngine_v2_def
      upgrades_v1_def upgrades_v2_def getRate_each_v1_def getRate_each_v2_def no_type_def)

end
